theory Spec2Isabelle
  imports Main
begin

section \<open>Character card utilities: the data model\<close>

text \<open>
  The module \<^verbatim>\<open>character_card_utils.py\<close> works on the values that \<^verbatim>\<open>json.loads\<close> returns
  and \<^verbatim>\<open>json.dumps\<close> accepts. They are embedded as the datatype \<open>pyval\<close>: \<^verbatim>\<open>None\<close>,
  booleans, unbounded integers, strings, lists, and dictionaries with string keys kept as
  association lists in insertion order (a Python \<^verbatim>\<open>dict\<close> has no duplicate keys; lookup
  takes the first binding). Python floats are not represented.

  A Python \<^verbatim>\<open>str\<close> is embedded as the list of the bytes of its UTF-8 encoding, so that an
  ASCII character is one \<open>char\<close> and every other code point is a multi-byte sequence.

  Exceptions are values: a function of the source that can raise returns \<open>exn + 'a\<close>,
  with \<open>Inl\<close> for the exception. \<open>ValueError\<close> stands for itself and for its subclasses
  \<^verbatim>\<open>binascii.Error\<close>, \<^verbatim>\<open>json.JSONDecodeError\<close> and \<^verbatim>\<open>UnicodeDecodeError\<close>; \<open>TemplateError\<close> for
  what the template compiler of \<^verbatim>\<open>re\<close> raises (\<^verbatim>\<open>re.error\<close>, or \<^verbatim>\<open>IndexError\<close> for an unknown
  group name); \<open>Exception msg\<close> for a plain \<^verbatim>\<open>Exception(msg)\<close>. \<open>OutsideModel\<close> is no
  Python exception: a library model returns it on an input it does not cover.
\<close>

datatype pyval =
    PNone
  | PBool bool
  | PInt int
  | PStr string
  | PList "pyval list"
  | PDict "(string \<times> pyval) list"

datatype exn =
    TypeError
  | AttributeError
  | KeyError
  | ValueError
  | UnicodeEncodeError
  | RecursionError
  | TemplateError
  | Exception string
  | OutsideModel

text \<open>Python truthiness (\<^verbatim>\<open>if x\<close>, \<^verbatim>\<open>not x\<close>).\<close>

fun truthy :: "pyval \<Rightarrow> bool" where
  "truthy PNone = False"
| "truthy (PBool b) = b"
| "truthy (PInt i) = (i \<noteq> 0)"
| "truthy (PStr s) = (s \<noteq> [])"
| "truthy (PList xs) = (xs \<noteq> [])"
| "truthy (PDict kvs) = (kvs \<noteq> [])"

text \<open>\<^verbatim>\<open>d.get(k, default)\<close> on a dictionary; on any other value the attribute is missing.\<close>

definition dict_get :: "(string \<times> pyval) list \<Rightarrow> string \<Rightarrow> pyval \<Rightarrow> pyval" where
  "dict_get kvs k dflt = (case map_of kvs k of None \<Rightarrow> dflt | Some v \<Rightarrow> v)"

definition py_get :: "pyval \<Rightarrow> string \<Rightarrow> pyval \<Rightarrow> exn + pyval" where
  "py_get d k dflt = (case d of PDict kvs \<Rightarrow> Inr (dict_get kvs k dflt) | _ \<Rightarrow> Inl AttributeError)"

text \<open>\<^verbatim>\<open>sub in s\<close> on strings: \<open>sub\<close> occurs as a contiguous slice of \<open>s\<close>.\<close>

fun str_contains :: "string \<Rightarrow> string \<Rightarrow> bool" where
  "str_contains sub [] = (sub = [])"
| "str_contains sub (c # cs) = (take (length sub) (c # cs) = sub \<or> str_contains sub cs)"

text \<open>
  \<^verbatim>\<open>k in x\<close> for a string key \<open>k\<close>: key membership on a dictionary, element membership on
  a list, substring test on a string, \<^verbatim>\<open>TypeError\<close> on \<^verbatim>\<open>None\<close>, booleans and integers.
\<close>

definition py_in :: "string \<Rightarrow> pyval \<Rightarrow> exn + bool" where
  "py_in k x = (case x of
      PDict kvs \<Rightarrow> Inr (map_of kvs k \<noteq> None)
    | PList xs \<Rightarrow> Inr (PStr k \<in> set xs)
    | PStr s \<Rightarrow> Inr (str_contains k s)
    | _ \<Rightarrow> Inl TypeError)"

text \<open>
  \<^verbatim>\<open>x[k]\<close> for a string key \<open>k\<close>, evaluated by the source only after \<^verbatim>\<open>k in x\<close> was true:
  the value on a dictionary, \<^verbatim>\<open>TypeError\<close> on
  a list or a string, which take integer indices only.
\<close>

definition py_index :: "pyval \<Rightarrow> string \<Rightarrow> exn + pyval" where
  "py_index x k = (case x of
      PDict kvs \<Rightarrow> (case map_of kvs k of Some v \<Rightarrow> Inr v | None \<Rightarrow> Inl KeyError)
    | _ \<Rightarrow> Inl TypeError)"

section \<open>Placeholder substitution\<close>

subsection \<open>The replacement template of \<^verbatim>\<open>re.sub\<close>\<close>

text \<open>
  \<^verbatim>\<open>re.sub(pattern, repl, string)\<close> with a string \<open>repl\<close> does not insert \<open>repl\<close> as it is:
  when \<open>repl\<close> contains a backslash it is compiled as a template (\<^verbatim>\<open>re._parser.parse_template\<close>
  of CPython 3.12): \<^verbatim>\<open>\g<0>\<close> stands for the matched text, \<^verbatim>\<open>\n\<close>, \<^verbatim>\<open>\t\<close>, ... and octal
  escapes stand for single characters, a backslash before another ASCII letter, a reference
  to a group the pattern does not have, and a backslash at the end are errors. Both patterns
  of the source have no groups, so group 0 is the only valid reference.
\<close>

abbreviation backslash :: char where
  "backslash \<equiv> CHR 0x5C"

definition is_digit :: "char \<Rightarrow> bool" where
  "is_digit c = (c \<in> set ''0123456789'')"

definition is_octdigit :: "char \<Rightarrow> bool" where
  "is_octdigit c = (c \<in> set ''01234567'')"

definition is_ascii_letter :: "char \<Rightarrow> bool" where
  "is_ascii_letter c =
     (c \<in> set ''abcdefghijklmnopqrstuvwxyzABCDEFGHIJKLMNOPQRSTUVWXYZ'')"

definition digit_val :: "char \<Rightarrow> nat" where
  "digit_val c = of_char c - 48"

definition int_of_digits :: "nat \<Rightarrow> string \<Rightarrow> nat" where
  "int_of_digits base ds = foldl (\<lambda>acc d. acc * base + digit_val d) 0 ds"

text \<open>The UTF-8 bytes of the string \<^verbatim>\<open>chr(n)\<close>.\<close>

definition utf8_of_cp :: "nat \<Rightarrow> string" where
  "utf8_of_cp n =
     (if n < 0x80 then [char_of n]
      else if n < 0x800 then [char_of (0xC0 + n div 64), char_of (0x80 + n mod 64)]
      else if n < 0x10000 then
        [char_of (0xE0 + n div 4096), char_of (0x80 + n div 64 mod 64), char_of (0x80 + n mod 64)]
      else
        [char_of (0xF0 + n div 262144), char_of (0x80 + n div 4096 mod 64),
         char_of (0x80 + n div 64 mod 64), char_of (0x80 + n mod 64)])"

datatype piece = Lit string | Grp nat

definition emit :: "piece \<Rightarrow> exn + piece list \<Rightarrow> exn + piece list" where
  "emit p r = (case r of Inl e \<Rightarrow> Inl e | Inr ps \<Rightarrow> Inr (p # ps))"

text \<open>The table \<^verbatim>\<open>ESCAPES\<close> of \<^verbatim>\<open>re._parser\<close>.\<close>

definition escape_char :: "char \<Rightarrow> char option" where
  "escape_char c =
     (if c = CHR ''a'' then Some (CHR 0x07)
      else if c = CHR ''b'' then Some (CHR 0x08)
      else if c = CHR ''f'' then Some (CHR 0x0C)
      else if c = CHR ''n'' then Some (CHR 0x0A)
      else if c = CHR ''r'' then Some (CHR 0x0D)
      else if c = CHR ''t'' then Some (CHR 0x09)
      else if c = CHR ''v'' then Some (CHR 0x0B)
      else if c = backslash then Some backslash
      else None)"

function parse_template :: "string \<Rightarrow> exn + piece list" where
  "parse_template [] = Inr []"
| "parse_template (c # cs) =
     (if c \<noteq> backslash then emit (Lit [c]) (parse_template cs)
      else case cs of
        [] \<Rightarrow> Inl TemplateError
      | d # ds \<Rightarrow>
          if d = CHR ''g'' then
            (case ds of
               [] \<Rightarrow> Inl TemplateError
             | e # es \<Rightarrow>
                 if e \<noteq> CHR ''<'' then Inl TemplateError
                 else if dropWhile (\<lambda>x. x \<noteq> CHR ''>'') es = [] then Inl TemplateError
                 else if takeWhile (\<lambda>x. x \<noteq> CHR ''>'') es = [] then Inl TemplateError
                 else if \<not> list_all is_digit (takeWhile (\<lambda>x. x \<noteq> CHR ''>'') es)
                   then Inl TemplateError
                 else if int_of_digits 10 (takeWhile (\<lambda>x. x \<noteq> CHR ''>'') es) > 0
                   then Inl TemplateError
                 else emit (Grp 0) (parse_template (tl (dropWhile (\<lambda>x. x \<noteq> CHR ''>'') es))))
          else if d = CHR ''0'' then
            (case ds of
               [] \<Rightarrow> emit (Lit [CHR 0x00]) (parse_template ds)
             | e # es \<Rightarrow>
                 if is_octdigit e then
                   (case es of
                      [] \<Rightarrow> emit (Lit [char_of (int_of_digits 8 [e])]) (parse_template es)
                    | f # fs \<Rightarrow>
                        if is_octdigit f
                        then emit (Lit [char_of (int_of_digits 8 [e, f])]) (parse_template fs)
                        else emit (Lit [char_of (int_of_digits 8 [e])]) (parse_template es))
                 else emit (Lit [CHR 0x00]) (parse_template ds))
          else if is_digit d then
            (case ds of
               e # f # fs \<Rightarrow>
                 if is_digit e \<and> is_octdigit d \<and> is_octdigit e \<and> is_octdigit f then
                   (if int_of_digits 8 [d, e, f] > 255 then Inl TemplateError
                    else emit (Lit (utf8_of_cp (int_of_digits 8 [d, e, f]))) (parse_template fs))
                 else Inl TemplateError
             | _ \<Rightarrow> Inl TemplateError)
          else
            (case escape_char d of
               Some x \<Rightarrow> emit (Lit [x]) (parse_template ds)
             | None \<Rightarrow>
                 if is_ascii_letter d then Inl TemplateError
                 else emit (Lit [backslash, d]) (parse_template ds)))"
  by pat_completeness auto

termination parse_template
proof (relation "measure length")
  fix c :: char and cs :: string and d :: char and ds :: string and e :: char and es :: string
  assume "cs = d # ds" "ds = e # es"
  have "length (tl (dropWhile (\<lambda>x. x \<noteq> CHR ''>'') es)) \<le> length es"
    using length_dropWhile_le [of "\<lambda>x. x \<noteq> CHR ''>''" es] by simp
  then show "(tl (dropWhile (\<lambda>x. x \<noteq> CHR ''>'') es), c # cs) \<in> measure length"
    using \<open>cs = d # ds\<close> \<open>ds = e # es\<close> by simp
qed auto

text \<open>\<^verbatim>\<open>match.expand\<close>: the literals as they are, group 0 as the matched text \<open>m\<close>.\<close>

definition expand_template :: "piece list \<Rightarrow> string \<Rightarrow> string" where
  "expand_template ps m = concat (map (\<lambda>p. case p of Lit s \<Rightarrow> s | Grp _ \<Rightarrow> m) ps)"

subsection \<open>Case-insensitive matching of a literal pattern\<close>

text \<open>
  With \<^verbatim>\<open>re.IGNORECASE\<close> on a \<^verbatim>\<open>str\<close> pattern an ASCII letter matches both of its cases,
  and the letters \<open>s\<close>, \<open>k\<close> and \<open>i\<close> also match the code points that Unicode folds to them:
  U+017F (long s), U+212A (Kelvin sign), U+0130 and U+0131 (dotted and dotless i), given
  here by their UTF-8 bytes. Any other ASCII character matches only itself.
\<close>

definition ascii_lower :: "char \<Rightarrow> char" where
  "ascii_lower c =
     (if 65 \<le> (of_char c :: nat) \<and> (of_char c :: nat) \<le> 90 then char_of (of_char c + 32 :: nat) else c)"

definition ascii_upper :: "char \<Rightarrow> char" where
  "ascii_upper c =
     (if 97 \<le> (of_char c :: nat) \<and> (of_char c :: nat) \<le> 122 then char_of (of_char c - 32 :: nat) else c)"

definition ci_alts :: "char \<Rightarrow> string list" where
  "ci_alts p =
     (if ascii_lower p = ascii_upper p then [[p]] else [[ascii_lower p], [ascii_upper p]]) @
     (if ascii_lower p = CHR ''s'' then [[CHR 0xC5, CHR 0xBF]]
      else if ascii_lower p = CHR ''k'' then [[CHR 0xE2, CHR 0x84, CHR 0xAA]]
      else if ascii_lower p = CHR ''i'' then [[CHR 0xC4, CHR 0xB0], [CHR 0xC4, CHR 0xB1]]
      else [])"

fun first_prefix :: "string list \<Rightarrow> string \<Rightarrow> string option" where
  "first_prefix [] t = None"
| "first_prefix (a # as) t = (if take (length a) t = a then Some a else first_prefix as t)"

text \<open>
  \<open>match_here pat t\<close>: the pattern matches at the start of \<open>t\<close>; the result is the matched
  text and the rest of \<open>t\<close>.
\<close>

fun match_here :: "string \<Rightarrow> string \<Rightarrow> (string \<times> string) option" where
  "match_here [] t = Some ([], t)"
| "match_here (p # ps) t =
     (case first_prefix (ci_alts p) t of
        None \<Rightarrow> None
      | Some a \<Rightarrow>
          (case match_here ps (drop (length a) t) of
             None \<Rightarrow> None
           | Some (m, r) \<Rightarrow> Some (a @ m, r)))"

lemma first_prefix_Some: "first_prefix as t = Some a \<Longrightarrow> t = a @ drop (length a) t"
proof (induction as)
  case Nil
  then show ?case by simp
next
  case (Cons b bs)
  show ?case
  proof (cases "take (length b) t = b")
    case True
    with Cons.prems have "a = b" by simp
    with True show ?thesis by (metis append_take_drop_id)
  next
    case False
    with Cons show ?thesis by simp
  qed
qed

lemma match_here_append: "match_here pat t = Some (m, r) \<Longrightarrow> t = m @ r"
proof (induction pat arbitrary: t m r)
  case Nil
  then show ?case by simp
next
  case (Cons p ps)
  from Cons.prems obtain a m' where a: "first_prefix (ci_alts p) t = Some a"
    and m': "match_here ps (drop (length a) t) = Some (m', r)" and m: "m = a @ m'"
    by (auto split: option.splits)
  from Cons.IH [OF m'] first_prefix_Some [OF a] m show ?case
    by (metis append.assoc)
qed

text \<open>
  The scan of \<^verbatim>\<open>re.sub\<close>: leftmost matches, not overlapping, each replaced by \<open>f\<close> of the
  matched text; the text between matches is copied.
\<close>

function sub_scan :: "string \<Rightarrow> (string \<Rightarrow> string) \<Rightarrow> string \<Rightarrow> string" where
  "sub_scan pat f [] = (if pat = [] then f [] else [])"
| "sub_scan pat f (c # cs) =
     (case match_here pat (c # cs) of
        None \<Rightarrow> c # sub_scan pat f cs
      | Some (m, r) \<Rightarrow>
          if m = [] then f [] @ c # sub_scan pat f cs
          else f m @ sub_scan pat f r)"
  by pat_completeness auto

termination sub_scan
proof (relation "measure (\<lambda>(pat, f, t). length t)")
  fix pat :: string and f :: "string \<Rightarrow> string" and c :: char and cs :: string
    and x2 :: "string \<times> string" and m r :: string
  assume "match_here pat (c # cs) = Some x2" "(m, r) = x2" "m \<noteq> []"
  then have "c # cs = m @ r"
    using match_here_append [of pat "c # cs" m r] by simp
  with \<open>m \<noteq> []\<close> have "length r < length (c # cs)"
    by (metis length_append length_greater_0_conv less_add_same_cancel2)
  then show "((pat, f, r), (pat, f, c # cs)) \<in> measure (\<lambda>(pat, f, t). length t)"
    by simp
qed auto

text \<open>
  \<^verbatim>\<open>re.sub(pattern, repl, string, flags=re.IGNORECASE)\<close> for a literal pattern. The template
  is compiled before the string is looked at, so a bad template raises even when nothing
  matches; a \<open>repl\<close> or a \<open>string\<close> that is not a \<^verbatim>\<open>str\<close> raises \<^verbatim>\<open>TypeError\<close>.
\<close>

definition re_sub :: "string \<Rightarrow> pyval \<Rightarrow> pyval \<Rightarrow> exn + pyval" where
  "re_sub pat repl text =
     (case repl of
        PStr r \<Rightarrow>
          if backslash \<notin> set r then
            (case text of
               PStr t \<Rightarrow> Inr (PStr (sub_scan pat (\<lambda>m. r) t))
             | _ \<Rightarrow> Inl TypeError)
          else
            (case parse_template r of
               Inl e \<Rightarrow> Inl e
             | Inr ps \<Rightarrow>
                 (case text of
                    PStr t \<Rightarrow> Inr (PStr (sub_scan pat (expand_template ps) t))
                  | _ \<Rightarrow> Inl TypeError))
      | _ \<Rightarrow> Inl TypeError)"

subsection \<open>\<^verbatim>\<open>replace_placeholders\<close>\<close>

definition replace_placeholders :: "pyval \<Rightarrow> pyval \<Rightarrow> pyval \<Rightarrow> exn + pyval" where
  "replace_placeholders text char_name user_name =
     (if \<not> truthy text then Inr text
      else case re_sub ''{{char}}'' char_name text of
        Inl e \<Rightarrow> Inl e
      | Inr text1 \<Rightarrow> re_sub ''{{user}}'' user_name text1)"

section \<open>Schema mapper\<close>

definition bind_exn :: "exn + 'a \<Rightarrow> ('a \<Rightarrow> exn + 'b) \<Rightarrow> exn + 'b" where
  "bind_exn r f = (case r of Inl e \<Rightarrow> Inl e | Inr x \<Rightarrow> f x)"

text \<open>\<^verbatim>\<open>sep.join(parts)\<close>: every part must be a \<^verbatim>\<open>str\<close>.\<close>

fun str_join :: "string \<Rightarrow> pyval list \<Rightarrow> exn + string" where
  "str_join sep [] = Inr []"
| "str_join sep [x] = (case x of PStr s \<Rightarrow> Inr s | _ \<Rightarrow> Inl TypeError)"
| "str_join sep (x # y # ys) =
     (case x of
        PStr s \<Rightarrow> bind_exn (str_join sep (y # ys)) (\<lambda>r. Inr (s @ sep @ r))
      | _ \<Rightarrow> Inl TypeError)"

text \<open>
  Lines 114--115: \<^verbatim>\<open>if 'data' in tavern_card: tavern_card = tavern_card['data']\<close>.
\<close>

definition unwrap_data :: "pyval \<Rightarrow> exn + pyval" where
  "unwrap_data tavern_card =
     bind_exn (py_in ''data'' tavern_card) (\<lambda>wrapped.
       if wrapped then py_index tavern_card ''data'' else Inr tavern_card)"

text \<open>
  Lines 123--127: \<^verbatim>\<open>if k in tavern_card and tavern_card[k]: persona_parts.append(tavern_card[k])\<close>;
  the result is what the statement appends.
\<close>

definition persona_part :: "pyval \<Rightarrow> string \<Rightarrow> exn + pyval list" where
  "persona_part tavern_card k =
     bind_exn (py_in k tavern_card) (\<lambda>present.
       if present then
         bind_exn (py_index tavern_card k) (\<lambda>v. Inr (if truthy v then [v] else []))
       else Inr [])"

text \<open>Lines 117--154, on the card after the unwrapping.\<close>

definition map_card_fields :: "pyval \<Rightarrow> pyval \<Rightarrow> exn + pyval" where
  "map_card_fields tavern_card user_name =
     bind_exn (py_get tavern_card ''name'' (PStr ''BOT'')) (\<lambda>ai_name.
     bind_exn (persona_part tavern_card ''personality'') (\<lambda>parts1.
     bind_exn (persona_part tavern_card ''description'') (\<lambda>parts2.
     bind_exn (if parts1 @ parts2 \<noteq> []
               then bind_exn (str_join '' '' (parts1 @ parts2)) (\<lambda>s. Inr (PStr s))
               else Inr (PStr ''An AI companion'')) (\<lambda>persona_desc0.
     bind_exn (replace_placeholders persona_desc0 ai_name user_name) (\<lambda>persona_desc.
     bind_exn (py_get tavern_card ''greeting'' (PStr [])) (\<lambda>legacy_greeting.
     bind_exn (py_get tavern_card ''first_mes'' legacy_greeting) (\<lambda>greeting0.
     bind_exn (replace_placeholders greeting0 ai_name user_name) (\<lambda>greeting.
     bind_exn (py_get tavern_card ''scenario'' (PStr [])) (\<lambda>scenario0.
     bind_exn (replace_placeholders scenario0 ai_name user_name) (\<lambda>scenario.
     bind_exn (py_get tavern_card ''mes_example'' (PStr [])) (\<lambda>mes_example0.
     bind_exn (replace_placeholders mes_example0 ai_name user_name) (\<lambda>mes_example.
       Inr (PDict
         [(''ai_name'', ai_name),
          (''persona_desc'', persona_desc),
          (''greeting'', greeting),
          (''scenario'', scenario),
          (''mes_example'', mes_example),
          (''raw_card'', tavern_card)])))))))))))))"

definition map_tavern_to_internal :: "pyval \<Rightarrow> pyval \<Rightarrow> exn + pyval" where
  "map_tavern_to_internal tavern_card user_name =
     bind_exn (unwrap_data tavern_card) (\<lambda>card. map_card_fields card user_name)"

definition map_internal_to_tavern :: "pyval \<Rightarrow> exn + pyval" where
  "map_internal_to_tavern character_data =
     bind_exn (py_get character_data ''ai_name'' (PStr ''BOT'')) (\<lambda>name.
     bind_exn (py_get character_data ''persona_desc'' (PStr [])) (\<lambda>description.
     bind_exn (py_get character_data ''persona_desc'' (PStr [])) (\<lambda>personality.
     bind_exn (py_get character_data ''greeting'' (PStr [])) (\<lambda>first_mes.
     bind_exn (py_get character_data ''scenario'' (PStr [])) (\<lambda>scenario.
     bind_exn (py_get character_data ''mes_example'' (PStr [])) (\<lambda>mes_example.
       Inr (PDict
         [(''name'', name),
          (''description'', description),
          (''personality'', personality),
          (''first_mes'', first_mes),
          (''scenario'', scenario),
          (''mes_example'', mes_example),
          (''creator_notes'', PStr ''Exported from BrainDancev2''),
          (''system_prompt'', PStr []),
          (''post_history_instructions'', PStr []),
          (''tags'', PList []),
          (''creator'', PStr ''BrainDancev2''),
          (''character_version'', PStr ''1.0''),
          (''spec'', PStr ''chara_card_v2''),
          (''spec_version'', PStr ''2.0'')])))))))"

section \<open>Import and export\<close>

text \<open>
  The imaging library is a parameter: the operations the module calls on it, each
  returning its result or the exception it raises. \<open>'src\<close> is what \<^verbatim>\<open>Image.open\<close> accepts,
  \<open>'img\<close> an opened image; \<open>img_info\<close> is the dictionary \<^verbatim>\<open>img.info\<close>; \<open>save_png img texts\<close> is
  \<^verbatim>\<open>img.save(output, format='PNG', pnginfo=pnginfo)\<close> followed by \<^verbatim>\<open>output.getvalue()\<close>, for the
  \<^verbatim>\<open>PngInfo\<close> holding the text entries \<open>texts\<close>.
\<close>

record ('src, 'img) pil =
  Image_open :: "'src \<Rightarrow> exn + 'img"
  BytesIO :: "string \<Rightarrow> 'src"
  img_info :: "'img \<Rightarrow> string \<Rightarrow> pyval option"
  Image_new :: "string \<Rightarrow> nat \<times> nat \<Rightarrow> string \<Rightarrow> exn + 'img"
  save_png :: "'img \<Rightarrow> (string \<times> string) list \<Rightarrow> exn + string"

text \<open>
  The functions of the standard library behind the card codec, and \<^verbatim>\<open>str(e)\<close> on an
  exception: \<open>json_dumps\<close> is \<^verbatim>\<open>json.dumps(x, ensure_ascii=False)\<close>, \<open>encode_utf8\<close> is
  \<^verbatim>\<open>s.encode('utf-8')\<close>, \<open>b64encode\<close> is \<^verbatim>\<open>base64.b64encode(b).decode('ascii')\<close>.
\<close>

record stdlib =
  json_dumps :: "pyval \<Rightarrow> exn + string"
  encode_utf8 :: "string \<Rightarrow> exn + string"
  b64encode :: "string \<Rightarrow> exn + string"
  b64decode :: "pyval \<Rightarrow> exn + string"
  json_loads :: "string \<Rightarrow> exn + pyval"
  exn_str :: "exn \<Rightarrow> string"

datatype 'src image_data = Bytes string | FileLike 'src

record 'img import_result =
  success :: bool
  error :: "string option"
  image :: "'img option"
  character_data :: "pyval option"

text \<open>Lines 49--50: the decoding of the text found under \<open>chara\<close>.\<close>

definition decode_card :: "stdlib \<Rightarrow> pyval \<Rightarrow> exn + pyval" where
  "decode_card lib chara_data_b64 =
     bind_exn (b64decode lib chara_data_b64) (\<lambda>chara_data_json. json_loads lib chara_data_json)"

text \<open>Lines 177--178: the encoding of a card.\<close>

definition encode_card :: "stdlib \<Rightarrow> pyval \<Rightarrow> exn + string" where
  "encode_card lib tavern_card =
     bind_exn (json_dumps lib tavern_card) (\<lambda>card_json.
     bind_exn (encode_utf8 lib card_json) (\<lambda>card_bytes. b64encode lib card_bytes))"

text \<open>Lines 33--36: the image is opened from the bytes or from the object given.\<close>

definition open_image :: "('src, 'img) pil \<Rightarrow> 'src image_data \<Rightarrow> exn + 'img" where
  "open_image pil image_data =
     (case image_data of
        Bytes b \<Rightarrow> Image_open pil (BytesIO pil b)
      | FileLike f \<Rightarrow> Image_open pil f)"

text \<open>The body of the \<^verbatim>\<open>try\<close> of \<^verbatim>\<open>import_character_card\<close>, lines 32--60.\<close>

definition import_try ::
  "stdlib \<Rightarrow> ('src, 'img) pil \<Rightarrow> 'src image_data \<Rightarrow> pyval \<Rightarrow> exn + 'img import_result" where
  "import_try lib pil image_data user_name =
     bind_exn (open_image pil image_data) (\<lambda>img.
       case img_info pil img ''chara'' of
         None \<Rightarrow>
           Inr \<lparr>success = False,
                error = Some ''No character card metadata found in image. Make sure this is a valid Tavern/SillyTavern character card.'',
                image = Some img,
                character_data = None\<rparr>
       | Some chara_data_b64 \<Rightarrow>
           bind_exn (decode_card lib chara_data_b64) (\<lambda>character_card.
           bind_exn (map_tavern_to_internal character_card user_name) (\<lambda>mapped_data.
             Inr \<lparr>success = True, error = None, image = Some img,
                  character_data = Some mapped_data\<rparr>)))"

text \<open>The whole function: \<^verbatim>\<open>except Exception as e\<close> turns every exception into a result.\<close>

definition import_character_card ::
  "stdlib \<Rightarrow> ('src, 'img) pil \<Rightarrow> 'src image_data \<Rightarrow> pyval \<Rightarrow> 'img import_result" where
  "import_character_card lib pil image_data user_name =
     (case import_try lib pil image_data user_name of
        Inr result \<Rightarrow> result
      | Inl e \<Rightarrow>
          \<lparr>success = False,
           error = Some (''Error importing character card: '' @ exn_str lib e),
           image = None,
           character_data = None\<rparr>)"

text \<open>The body of the \<^verbatim>\<open>try\<close> of \<^verbatim>\<open>export_character_card\<close>, lines 173--194
  (\<open>char_data\<close> and \<open>given_image\<close> are the parameters \<^verbatim>\<open>character_data\<close> and \<^verbatim>\<open>image\<close>).\<close>

definition export_try ::
  "stdlib \<Rightarrow> ('src, 'img) pil \<Rightarrow> pyval \<Rightarrow> 'img option \<Rightarrow> exn + string" where
  "export_try lib pil char_data given_image =
     bind_exn (map_internal_to_tavern char_data) (\<lambda>tavern_card.
     bind_exn (encode_card lib tavern_card) (\<lambda>card_b64.
     bind_exn (case given_image of
                 None \<Rightarrow> Image_new pil ''RGB'' (400, 600) ''#282a36''
               | Some img \<Rightarrow> Inr img) (\<lambda>img.
       save_png pil img [(''chara'', card_b64)])))"

definition export_character_card ::
  "stdlib \<Rightarrow> ('src, 'img) pil \<Rightarrow> pyval \<Rightarrow> 'img option \<Rightarrow> exn + string" where
  "export_character_card lib pil char_data given_image =
     (case export_try lib pil char_data given_image of
        Inr png_bytes \<Rightarrow> Inr png_bytes
      | Inl e \<Rightarrow> Inl (Exception (''Error exporting character card: '' @ exn_str lib e)))"

section \<open>Notions used to state the properties\<close>

text \<open>
  \<open>occurs pat t\<close>: the pattern has a case-insensitive occurrence somewhere in \<open>t\<close>, decided
  with the matcher of the scan itself.
\<close>

fun occurs :: "string \<Rightarrow> string \<Rightarrow> bool" where
  "occurs pat [] = (match_here pat [] \<noteq> None)"
| "occurs pat (c # cs) = (match_here pat (c # cs) \<noteq> None \<or> occurs pat cs)"

text \<open>
  The persona description as the specification words it: the non-empty ones of the strings
  \<open>personality\<close> and \<open>description\<close>, in that order, joined by a single space, or the fallback
  when there is none. A field that is absent or not a string counts as empty here.
\<close>

definition str_field :: "(string \<times> pyval) list \<Rightarrow> string \<Rightarrow> string" where
  "str_field kvs k = (case map_of kvs k of Some (PStr s) \<Rightarrow> s | _ \<Rightarrow> [])"

fun join_strs :: "string \<Rightarrow> string list \<Rightarrow> string" where
  "join_strs sep [] = []"
| "join_strs sep [x] = x"
| "join_strs sep (x # y # ys) = x @ sep @ join_strs sep (y # ys)"

definition spec_persona_join :: "(string \<times> pyval) list \<Rightarrow> string" where
  "spec_persona_join kvs =
     (if filter (\<lambda>s. s \<noteq> []) [str_field kvs ''personality'', str_field kvs ''description''] = []
      then ''An AI companion''
      else join_strs '' ''
        (filter (\<lambda>s. s \<noteq> []) [str_field kvs ''personality'', str_field kvs ''description'']))"

text \<open>
  \<open>record_field r k\<close>: the value under key \<open>k\<close> of a returned dictionary; \<open>None\<close> when the
  call raised, returned no dictionary, or the key is missing.
\<close>

definition record_field :: "exn + pyval \<Rightarrow> string \<Rightarrow> pyval option" where
  "record_field r k = (case r of Inr (PDict t) \<Rightarrow> map_of t k | _ \<Rightarrow> None)"

text \<open>
  The internal record as the specification words it, steps 1 to 8 of
  \<^verbatim>\<open>map_tavern_to_internal\<close>. \<open>unwrapped\<close> is step 1, the card under \<open>data\<close> when there is one;
  \<open>spec_internal_record\<close> is steps 2 to 8 on a dictionary, with the persona description
  worded as above. The join of step 3 raises \<^verbatim>\<open>TypeError\<close> when a non-empty \<open>personality\<close> or
  \<open>description\<close> is not a string (\<open>persona_typed\<close> fails).
\<close>

definition unwrapped :: "(string \<times> pyval) list \<Rightarrow> pyval" where
  "unwrapped kvs = (case map_of kvs ''data'' of None \<Rightarrow> PDict kvs | Some v \<Rightarrow> v)"

definition persona_typed :: "(string \<times> pyval) list \<Rightarrow> bool" where
  "persona_typed c =
     list_all (\<lambda>k. case map_of c k of
                      None \<Rightarrow> True
                    | Some v \<Rightarrow> (case v of PStr s \<Rightarrow> True | _ \<Rightarrow> if truthy v then False else True))
       [''personality'', ''description'']"

definition spec_internal_record :: "(string \<times> pyval) list \<Rightarrow> pyval \<Rightarrow> exn + pyval" where
  "spec_internal_record c user_name =
     (if persona_typed c then
        bind_exn (replace_placeholders (PStr (spec_persona_join c))
                    (dict_get c ''name'' (PStr ''BOT'')) user_name) (\<lambda>persona_desc.
        bind_exn (replace_placeholders (dict_get c ''first_mes'' (dict_get c ''greeting'' (PStr [])))
                    (dict_get c ''name'' (PStr ''BOT'')) user_name) (\<lambda>greeting.
        bind_exn (replace_placeholders (dict_get c ''scenario'' (PStr []))
                    (dict_get c ''name'' (PStr ''BOT'')) user_name) (\<lambda>scenario.
        bind_exn (replace_placeholders (dict_get c ''mes_example'' (PStr []))
                    (dict_get c ''name'' (PStr ''BOT'')) user_name) (\<lambda>mes_example.
          Inr (PDict
            [(''ai_name'', dict_get c ''name'' (PStr ''BOT'')),
             (''persona_desc'', persona_desc),
             (''greeting'', greeting),
             (''scenario'', scenario),
             (''mes_example'', mes_example),
             (''raw_card'', PDict c)])))))
      else Inl TypeError)"

text \<open>
  \<open>text_fields_plain c\<close>: each of the six text fields of the card is absent or a string.
\<close>

definition text_fields_plain :: "(string \<times> pyval) list \<Rightarrow> bool" where
  "text_fields_plain c =
     list_all (\<lambda>k. case map_of c k of
                      None \<Rightarrow> True
                    | Some v \<Rightarrow> (case v of PStr s \<Rightarrow> True | _ \<Rightarrow> False))
       [''personality'', ''description'', ''first_mes'', ''greeting'', ''scenario'', ''mes_example'']"

text \<open>
  Stand-ins for the two libraries, small enough to compute with, at which the theorems on
  import and export are instantiated. An image is the list of its text entries; the bytes
  \<open>PNG\<close> followed by a text are the image with that text under \<open>chara\<close>, the bytes \<open>PNG\<close>
  alone the image without any entry, and nothing else opens. The stand-in decoders know
  the texts \<open>{}\<close> and \<open>5\<close> only.
\<close>

definition example_pil :: "(string, (string \<times> pyval) list) pil" where
  "example_pil =
     \<lparr>Image_open = (\<lambda>src.
        if take 3 src = ''PNG''
        then Inr (if drop 3 src = [] then [] else [(''chara'', PStr (drop 3 src))])
        else Inl (Exception ''cannot identify image file'')),
      BytesIO = (\<lambda>b. b),
      img_info = map_of,
      Image_new = (\<lambda>mode size color. Inr []),
      save_png = (\<lambda>img texts. Inr (''PNG'' @ concat (map snd texts)))\<rparr>"

definition example_stdlib :: stdlib where
  "example_stdlib =
     \<lparr>json_dumps = (\<lambda>x. if x = PInt 5 then Inr ''5'' else Inr ''{}''),
      encode_utf8 = Inr,
      b64encode = Inr,
      b64decode = (\<lambda>v. case v of
                          PStr s \<Rightarrow> if s = ''!'' then Inl ValueError else Inr s
                        | _ \<Rightarrow> Inl TypeError),
      json_loads = (\<lambda>s. if s = ''{}'' then Inr (PDict [])
                          else if s = ''5'' then Inr (PInt 5)
                          else Inl ValueError),
      exn_str = (\<lambda>e. ''failed'')\<rparr>"

section \<open>Auxiliary facts\<close>

lemma bind_exn_simps [simp]:
  "bind_exn (Inl e) f = Inl e" "bind_exn (Inr x) f = f x"
  by (simp_all add: bind_exn_def)

lemma bind_exn_eq_Inr:
  "bind_exn r f = Inr y \<longleftrightarrow> (\<exists>x. r = Inr x \<and> f x = Inr y)"
  by (cases r) simp_all

lemma py_get_dict [simp]: "py_get (PDict kvs) k d = Inr (dict_get kvs k d)"
  by (simp add: py_get_def)

lemma sub_scan_no_occurrence: "\<not> occurs pat t \<Longrightarrow> sub_scan pat f t = t"
proof (induction t)
  case Nil
  then show ?case by (cases pat) auto
next
  case (Cons c cs)
  from Cons.prems have m: "match_here pat (c # cs) = None" and "\<not> occurs pat cs"
    by (cases "match_here pat (c # cs)"; simp)+
  with Cons.IH have "sub_scan pat f cs = cs" by simp
  with m show ?case by simp
qed

lemma re_sub_literal:
  "backslash \<notin> set r \<Longrightarrow> re_sub pat (PStr r) (PStr t) = Inr (PStr (sub_scan pat (\<lambda>m. r) t))"
  by (simp add: re_sub_def)

lemma re_sub_Inr:
  assumes "re_sub pat repl text = Inr x"
  shows "\<exists>t f. text = PStr t \<and> x = PStr (sub_scan pat f t)"
  using assms unfolding re_sub_def
  by (auto split: pyval.splits if_splits sum.splits)

lemma re_sub_no_occurrence:
  assumes "re_sub pat repl (PStr t) = Inr x" "\<not> occurs pat t"
  shows "x = PStr t"
  using re_sub_Inr [OF assms(1)] assms(2) by (auto simp: sub_scan_no_occurrence)

lemma replace_placeholders_no_token:
  assumes "replace_placeholders (PStr t) c u = Inr x"
    and "\<not> occurs ''{{char}}'' t" "\<not> occurs ''{{user}}'' t"
  shows "x = PStr t"
proof (cases "t = []")
  case True
  with assms(1) show ?thesis by (simp add: replace_placeholders_def)
next
  case False
  with assms(1) obtain y where y: "re_sub ''{{char}}'' c (PStr t) = Inr y"
    and x: "re_sub ''{{user}}'' u y = Inr x"
    by (auto simp: replace_placeholders_def split: sum.splits)
  from re_sub_no_occurrence [OF y assms(2)] have "y = PStr t" .
  with x re_sub_no_occurrence [OF _ assms(3)] show ?thesis by simp
qed

lemma replace_placeholders_literal:
  assumes "backslash \<notin> set c" "backslash \<notin> set u" "t \<noteq> []"
  shows "replace_placeholders (PStr t) (PStr c) (PStr u) =
    Inr (PStr (sub_scan ''{{user}}'' (\<lambda>m. u) (sub_scan ''{{char}}'' (\<lambda>m. c) t)))"
  using assms by (simp add: replace_placeholders_def re_sub_literal)

lemma unwrap_data_dict:
  "unwrap_data (PDict kvs) = Inr (case map_of kvs ''data'' of None \<Rightarrow> PDict kvs | Some v \<Rightarrow> v)"
  by (auto simp: unwrap_data_def py_in_def py_index_def split: option.splits)

lemma persona_part_dict:
  "persona_part (PDict kvs) k =
     Inr (case map_of kvs k of None \<Rightarrow> [] | Some v \<Rightarrow> if truthy v then [v] else [])"
  by (auto simp: persona_part_def py_in_def py_index_def split: option.splits)

lemma truthy_part_cases:
  "(case map_of kvs k of None \<Rightarrow> [] | Some v \<Rightarrow> if truthy v then [v] else []) =
     (if str_field kvs k \<noteq> [] then [PStr (str_field kvs k)]
      else case map_of kvs k of Some v \<Rightarrow> (if truthy v then [v] else []) | None \<Rightarrow> [])"
  by (auto simp: str_field_def split: option.splits pyval.splits)

lemma persona_join_code:
  assumes "(if p1 @ p2 \<noteq> [] then bind_exn (str_join '' '' (p1 @ p2)) (\<lambda>s. Inr (PStr s))
            else Inr (PStr ''An AI companion'')) = Inr x"
    and "p1 = (case map_of kvs ''personality'' of None \<Rightarrow> [] | Some v \<Rightarrow> if truthy v then [v] else [])"
    and "p2 = (case map_of kvs ''description'' of None \<Rightarrow> [] | Some v \<Rightarrow> if truthy v then [v] else [])"
  shows "x = PStr (spec_persona_join kvs)"
  using assms
  by (auto simp: spec_persona_join_def str_field_def split: option.splits pyval.splits if_splits)

lemma map_card_fields_dict_Inr:
  assumes "map_card_fields (PDict kvs) u = Inr r"
  shows "\<exists>pd g s m.
    replace_placeholders (PStr (spec_persona_join kvs)) (dict_get kvs ''name'' (PStr ''BOT'')) u = Inr pd
    \<and> r = PDict [(''ai_name'', dict_get kvs ''name'' (PStr ''BOT'')), (''persona_desc'', pd),
         (''greeting'', g), (''scenario'', s), (''mes_example'', m), (''raw_card'', PDict kvs)]"
proof -
  let ?p1 = "case map_of kvs ''personality'' of None \<Rightarrow> [] | Some v \<Rightarrow> if truthy v then [v] else []"
  let ?p2 = "case map_of kvs ''description'' of None \<Rightarrow> [] | Some v \<Rightarrow> if truthy v then [v] else []"
  let ?j = "if ?p1 @ ?p2 \<noteq> [] then bind_exn (str_join '' '' (?p1 @ ?p2)) (\<lambda>s. Inr (PStr s))
            else Inr (PStr ''An AI companion'')"
  from assms obtain x where x: "?j = Inr x"
    and rest: "bind_exn (replace_placeholders x (dict_get kvs ''name'' (PStr ''BOT'')) u) (\<lambda>persona_desc.
     bind_exn (replace_placeholders (dict_get kvs ''first_mes'' (dict_get kvs ''greeting'' (PStr []))) (dict_get kvs ''name'' (PStr ''BOT'')) u) (\<lambda>greeting.
     bind_exn (replace_placeholders (dict_get kvs ''scenario'' (PStr [])) (dict_get kvs ''name'' (PStr ''BOT'')) u) (\<lambda>scenario.
     bind_exn (replace_placeholders (dict_get kvs ''mes_example'' (PStr [])) (dict_get kvs ''name'' (PStr ''BOT'')) u) (\<lambda>mes_example.
       Inr (PDict
         [(''ai_name'', dict_get kvs ''name'' (PStr ''BOT'')),
          (''persona_desc'', persona_desc),
          (''greeting'', greeting),
          (''scenario'', scenario),
          (''mes_example'', mes_example),
          (''raw_card'', PDict kvs)]))))) = Inr r"
    unfolding map_card_fields_def py_get_dict persona_part_dict bind_exn_simps
    by (cases ?j) simp_all
  from persona_join_code [OF x refl refl] have xj: "x = PStr (spec_persona_join kvs)" .
  from rest show ?thesis unfolding xj
    by (auto simp: bind_exn_eq_Inr)
qed

lemma map_internal_to_tavern_dict:
  "map_internal_to_tavern (PDict r) =
     Inr (PDict
       [(''name'', dict_get r ''ai_name'' (PStr ''BOT'')),
        (''description'', dict_get r ''persona_desc'' (PStr [])),
        (''personality'', dict_get r ''persona_desc'' (PStr [])),
        (''first_mes'', dict_get r ''greeting'' (PStr [])),
        (''scenario'', dict_get r ''scenario'' (PStr [])),
        (''mes_example'', dict_get r ''mes_example'' (PStr [])),
        (''creator_notes'', PStr ''Exported from BrainDancev2''),
        (''system_prompt'', PStr []),
        (''post_history_instructions'', PStr []),
        (''tags'', PList []),
        (''creator'', PStr ''BrainDancev2''),
        (''character_version'', PStr ''1.0''),
        (''spec'', PStr ''chara_card_v2''),
        (''spec_version'', PStr ''2.0'')])"
  by (simp add: map_internal_to_tavern_def)





lemma persona_code_eq:
  "(if (case map_of c ''personality'' of None \<Rightarrow> [] | Some v \<Rightarrow> if truthy v then [v] else [])
       @ (case map_of c ''description'' of None \<Rightarrow> [] | Some v \<Rightarrow> if truthy v then [v] else []) \<noteq> []
    then bind_exn (str_join '' ''
       ((case map_of c ''personality'' of None \<Rightarrow> [] | Some v \<Rightarrow> if truthy v then [v] else [])
       @ (case map_of c ''description'' of None \<Rightarrow> [] | Some v \<Rightarrow> if truthy v then [v] else [])))
       (\<lambda>s. Inr (PStr s))
    else Inr (PStr ''An AI companion''))
   = (if persona_typed c then Inr (PStr (spec_persona_join c)) else Inl TypeError)"
  by (auto simp: persona_typed_def spec_persona_join_def str_field_def
      split: option.splits pyval.splits if_splits)

lemma map_card_fields_dict:
  "map_card_fields (PDict c) u = spec_internal_record c u"
  unfolding map_card_fields_def py_get_dict persona_part_dict bind_exn_simps persona_code_eq
    spec_internal_record_def
  by simp

lemma map_card_fields_not_dict:
  "\<forall>c. v \<noteq> PDict c \<Longrightarrow> map_card_fields v u = Inl AttributeError"
  by (cases v) (simp_all add: map_card_fields_def py_get_def)

lemma map_tavern_to_internal_dict:
  "map_tavern_to_internal (PDict kvs) u =
     (case unwrapped kvs of PDict c \<Rightarrow> spec_internal_record c u | _ \<Rightarrow> Inl AttributeError)"
proof (cases "unwrapped kvs")
  case (PDict c)
  then show ?thesis
    by (simp add: map_tavern_to_internal_def unwrap_data_dict unwrapped_def map_card_fields_dict)
qed (simp_all add: map_tavern_to_internal_def unwrap_data_dict unwrapped_def map_card_fields_not_dict)

lemma spec_persona_join_nonempty: "spec_persona_join c \<noteq> []"
  by (auto simp: spec_persona_join_def)

lemma replace_placeholders_plain:
  assumes "backslash \<notin> set a" "backslash \<notin> set w"
  shows "\<exists>x. replace_placeholders (PStr t) (PStr a) (PStr w) = Inr (PStr x)"
proof (cases "t = []")
  case True
  then show ?thesis by (simp add: replace_placeholders_def)
next
  case False
  with replace_placeholders_literal [OF assms] show ?thesis by blast
qed

lemma text_fields_plain_key:
  assumes "text_fields_plain c"
    and "k \<in> set [''personality'', ''description'', ''first_mes'', ''greeting'', ''scenario'', ''mes_example'']"
  shows "case map_of c k of None \<Rightarrow> True | Some v \<Rightarrow> (case v of PStr s \<Rightarrow> True | _ \<Rightarrow> False)"
  using assms unfolding text_fields_plain_def list_all_iff by blast

lemma text_fields_plain_get:
  assumes "text_fields_plain c"
    and "k \<in> set [''personality'', ''description'', ''first_mes'', ''greeting'', ''scenario'', ''mes_example'']"
  shows "\<exists>s. dict_get c k (PStr d) = PStr s"
  using text_fields_plain_key [OF assms]
  by (auto simp: dict_get_def split: option.splits pyval.splits)

lemma text_fields_plain_typed:
  assumes "text_fields_plain c"
  shows "persona_typed c"
  unfolding persona_typed_def list_all_iff
proof (intro ballI)
  fix k assume "k \<in> set [''personality'', ''description'']"
  then have "k \<in> set [''personality'', ''description'', ''first_mes'', ''greeting'', ''scenario'', ''mes_example'']"
    by auto
  from text_fields_plain_key [OF assms this]
  show "case map_of c k of None \<Rightarrow> True
        | Some v \<Rightarrow> (case v of PStr s \<Rightarrow> True | _ \<Rightarrow> if truthy v then False else True)"
    by (auto split: option.splits pyval.splits)
qed

lemma spec_internal_record_plain:
  assumes "dict_get c ''name'' (PStr ''BOT'') = PStr a" "backslash \<notin> set a" "backslash \<notin> set w"
    and "text_fields_plain c"
  shows "\<exists>g s m. spec_internal_record c (PStr w) =
    Inr (PDict [(''ai_name'', PStr a),
       (''persona_desc'', PStr (sub_scan ''{{user}}'' (\<lambda>m. w)
             (sub_scan ''{{char}}'' (\<lambda>m. a) (spec_persona_join c)))),
       (''greeting'', PStr g), (''scenario'', PStr s), (''mes_example'', PStr m),
       (''raw_card'', PDict c)])"
proof -
  from text_fields_plain_get [OF assms(4), of "''greeting''" "[]"]
  obtain g0 where g0: "dict_get c ''greeting'' (PStr []) = PStr g0" by auto
  from text_fields_plain_get [OF assms(4), of "''first_mes''" g0]
  obtain g1 where g1: "dict_get c ''first_mes'' (PStr g0) = PStr g1" by auto
  from text_fields_plain_get [OF assms(4), of "''scenario''" "[]"]
  obtain s0 where s0: "dict_get c ''scenario'' (PStr []) = PStr s0" by auto
  from text_fields_plain_get [OF assms(4), of "''mes_example''" "[]"]
  obtain m0 where m0: "dict_get c ''mes_example'' (PStr []) = PStr m0" by auto
  from replace_placeholders_plain [OF assms(2,3), of g1]
  obtain g where g: "replace_placeholders (PStr g1) (PStr a) (PStr w) = Inr (PStr g)" by blast
  from replace_placeholders_plain [OF assms(2,3), of s0]
  obtain s where s: "replace_placeholders (PStr s0) (PStr a) (PStr w) = Inr (PStr s)" by blast
  from replace_placeholders_plain [OF assms(2,3), of m0]
  obtain m where m: "replace_placeholders (PStr m0) (PStr a) (PStr w) = Inr (PStr m)" by blast
  note p = replace_placeholders_literal [OF assms(2,3) spec_persona_join_nonempty, of c]
  show ?thesis
    unfolding spec_internal_record_def assms(1) g0 g1 s0 m0
    using text_fields_plain_typed [OF assms(4)] p g s m by simp
qed

lemma import_character_card_cases:
  "import_character_card lib pil d u =
     (case open_image pil d of
        Inl e \<Rightarrow> \<lparr>success = False, error = Some (''Error importing character card: '' @ exn_str lib e),
                  image = None, character_data = None\<rparr>
      | Inr img \<Rightarrow>
          (case img_info pil img ''chara'' of
             None \<Rightarrow> \<lparr>success = False,
                error = Some ''No character card metadata found in image. Make sure this is a valid Tavern/SillyTavern character card.'',
                image = Some img, character_data = None\<rparr>
           | Some v \<Rightarrow>
               (case b64decode lib v of
                  Inl e \<Rightarrow> \<lparr>success = False, error = Some (''Error importing character card: '' @ exn_str lib e),
                  image = None, character_data = None\<rparr>
                | Inr bs \<Rightarrow>
                    (case json_loads lib bs of
                       Inl e \<Rightarrow> \<lparr>success = False, error = Some (''Error importing character card: '' @ exn_str lib e),
                         image = None, character_data = None\<rparr>
                     | Inr tcard \<Rightarrow>
                         (case map_tavern_to_internal tcard u of
                            Inl e \<Rightarrow> \<lparr>success = False, error = Some (''Error importing character card: '' @ exn_str lib e),
                              image = None, character_data = None\<rparr>
                          | Inr m \<Rightarrow> \<lparr>success = True, error = None, image = Some img,
                              character_data = Some m\<rparr>)))))"
  by (simp add: import_character_card_def import_try_def decode_card_def
      split: sum.splits option.splits)

section \<open>Properties of the placeholder substitution\<close>

text \<open>
  Claim C5. \<^verbatim>\<open>replace_placeholders\<close> is to put \<open>char_name\<close> in the place of every
  case-insensitive occurrence of \<^verbatim>\<open>{{char}}\<close> and \<open>user_name\<close> in the place of every occurrence of
  \<^verbatim>\<open>{{user}}\<close>, and to return a text without tokens as it is. The source hands the names to
  \<^verbatim>\<open>re.sub\<close> as replacement templates, so a name with a backslash is not inserted as it is:
  with the name backslash-\<open>d\<close> the call raises even on a text without any token; with the name
  \<open>a\<close>-backslash-\<open>n\<close> a line feed is inserted instead of the two characters; with the name
  backslash-\<open>g<0>\<close> the token itself is put back.
\<close>

theorem replace_placeholders_template_escapes:
  "replace_placeholders (PStr ''hello'') (PStr [backslash, CHR ''d'']) (PStr ''Bob'') = Inl TemplateError
   \<and> \<not> occurs ''{{char}}'' ''hello'' \<and> \<not> occurs ''{{user}}'' ''hello''
   \<and> replace_placeholders (PStr ''{{char}}'') (PStr [CHR ''a'', backslash, CHR ''n'']) (PStr ''Bob'')
       = Inr (PStr [CHR ''a'', CHR 0x0A])
   \<and> replace_placeholders (PStr ''{{char}}'') (PStr ([backslash] @ ''g<0>'')) (PStr ''Bob'')
       = Inr (PStr ''{{char}}'')"
  by code_simp




section \<open>Properties of the schema mapper\<close>

text \<open>
  Claim C3, as stated: \<open>persona_desc\<close> is the join of the non-empty values of \<open>personality\<close> and
  \<open>description\<close>. It is not when the join contains a token: line 132 substitutes the
  placeholders in it.
\<close>

theorem persona_desc_raw_join_counterexample:
  "map_tavern_to_internal
     (PDict [(''name'', PStr ''Ada''), (''personality'', PStr ''{{char}} is kind'')]) (PStr ''YOU'')
   = Inr (PDict [(''ai_name'', PStr ''Ada''), (''persona_desc'', PStr ''Ada is kind''),
        (''greeting'', PStr []), (''scenario'', PStr []), (''mes_example'', PStr []),
        (''raw_card'', PDict [(''name'', PStr ''Ada''), (''personality'', PStr ''{{char}} is kind'')])])
   \<and> spec_persona_join [(''name'', PStr ''Ada''), (''personality'', PStr ''{{char}} is kind'')]
       = ''{{char}} is kind''
   \<and> PStr ''Ada is kind''
       \<noteq> PStr (spec_persona_join [(''name'', PStr ''Ada''), (''personality'', PStr ''{{char}} is kind'')])"
  by code_simp

text \<open>
  Claim C3, amended. For every Tavern card mapping, with \<open>c\<close> the card after the unwrapping
  of \<open>data\<close>: \<^verbatim>\<open>map_tavern_to_internal\<close> is steps 2 to 8 of the specification on \<open>c\<close>, so
  \<open>ai_name\<close> is \<^verbatim>\<open>c.get('name', 'BOT')\<close> and \<open>persona_desc\<close> is \<^verbatim>\<open>replace_placeholders\<close> of the
  join (the non-empty ones of \<open>personality\<close> and \<open>description\<close>, in that order, separated by
  one space, or \<^verbatim>\<open>'An AI companion'\<close> when there is none), which is the join itself when the
  join contains no token. The call returns whenever the text fields are strings or absent
  and the two names are strings without a backslash. The card of Ada gives the persona
  description \<open>kind smart\<close>, the empty card gives \<open>An AI companion\<close> and the name \<open>BOT\<close>.
\<close>

theorem map_tavern_to_internal_persona_desc:
  "map_tavern_to_internal (PDict kvs) user_name =
     (case unwrapped kvs of
        PDict c \<Rightarrow> spec_internal_record c user_name
      | _ \<Rightarrow> Inl AttributeError)
   \<and> (\<forall>c r. unwrapped kvs = PDict c \<and> map_tavern_to_internal (PDict kvs) user_name = Inr r \<longrightarrow>
         record_field (Inr r) ''ai_name'' = Some (dict_get c ''name'' (PStr ''BOT''))
         \<and> (\<exists>pd. replace_placeholders (PStr (spec_persona_join c))
                     (dict_get c ''name'' (PStr ''BOT'')) user_name = Inr pd
                \<and> record_field (Inr r) ''persona_desc'' = Some pd)
         \<and> (\<not> occurs ''{{char}}'' (spec_persona_join c) \<and> \<not> occurs ''{{user}}'' (spec_persona_join c)
              \<longrightarrow> record_field (Inr r) ''persona_desc'' = Some (PStr (spec_persona_join c))))
   \<and> (\<forall>c a w. unwrapped kvs = PDict c \<and> dict_get c ''name'' (PStr ''BOT'') = PStr a
           \<and> backslash \<notin> set a \<and> user_name = PStr w \<and> backslash \<notin> set w \<and> text_fields_plain c \<longrightarrow>
         (\<exists>g s m. map_tavern_to_internal (PDict kvs) user_name =
            Inr (PDict [(''ai_name'', PStr a),
               (''persona_desc'', PStr (sub_scan ''{{user}}'' (\<lambda>m. w)
                     (sub_scan ''{{char}}'' (\<lambda>m. a) (spec_persona_join c)))),
               (''greeting'', PStr g), (''scenario'', PStr s), (''mes_example'', PStr m),
               (''raw_card'', PDict c)])))
   \<and> map_tavern_to_internal
        (PDict [(''name'', PStr ''Ada''), (''personality'', PStr ''kind''), (''description'', PStr ''smart'')])
        (PStr ''YOU'')
      = Inr (PDict [(''ai_name'', PStr ''Ada''), (''persona_desc'', PStr ''kind smart''),
          (''greeting'', PStr []), (''scenario'', PStr []), (''mes_example'', PStr []),
          (''raw_card'', PDict [(''name'', PStr ''Ada''), (''personality'', PStr ''kind''),
             (''description'', PStr ''smart'')])])
   \<and> map_tavern_to_internal (PDict []) (PStr ''YOU'')
      = Inr (PDict [(''ai_name'', PStr ''BOT''), (''persona_desc'', PStr ''An AI companion''),
          (''greeting'', PStr []), (''scenario'', PStr []), (''mes_example'', PStr []),
          (''raw_card'', PDict [])])"
proof -
  note a = map_tavern_to_internal_dict [of kvs user_name]
  have b: "record_field (Inr r) ''ai_name'' = Some (dict_get c ''name'' (PStr ''BOT''))
         \<and> (\<exists>pd. replace_placeholders (PStr (spec_persona_join c))
                     (dict_get c ''name'' (PStr ''BOT'')) user_name = Inr pd
                \<and> record_field (Inr r) ''persona_desc'' = Some pd)
         \<and> (\<not> occurs ''{{char}}'' (spec_persona_join c) \<and> \<not> occurs ''{{user}}'' (spec_persona_join c)
              \<longrightarrow> record_field (Inr r) ''persona_desc'' = Some (PStr (spec_persona_join c)))"
    if u: "unwrapped kvs = PDict c" and r: "map_tavern_to_internal (PDict kvs) user_name = Inr r"
    for c r
  proof -
    from a u r have "map_card_fields (PDict c) user_name = Inr r"
      by (simp add: map_card_fields_dict)
    from map_card_fields_dict_Inr [OF this] obtain pd g s m where
      pd: "replace_placeholders (PStr (spec_persona_join c))
             (dict_get c ''name'' (PStr ''BOT'')) user_name = Inr pd"
      and r': "r = PDict [(''ai_name'', dict_get c ''name'' (PStr ''BOT'')), (''persona_desc'', pd),
           (''greeting'', g), (''scenario'', s), (''mes_example'', m), (''raw_card'', PDict c)]"
      by blast
    have f1: "record_field (Inr r) ''ai_name'' = Some (dict_get c ''name'' (PStr ''BOT''))"
      by (simp add: r' record_field_def)
    have f2: "record_field (Inr r) ''persona_desc'' = Some pd"
      by (simp add: r' record_field_def)
    have f3: "pd = PStr (spec_persona_join c)"
      if "\<not> occurs ''{{char}}'' (spec_persona_join c)" "\<not> occurs ''{{user}}'' (spec_persona_join c)"
      using replace_placeholders_no_token [OF pd that] .
    from f1 f2 f3 pd show ?thesis by blast
  qed
  have c: "\<exists>g s m. map_tavern_to_internal (PDict kvs) user_name =
            Inr (PDict [(''ai_name'', PStr a),
               (''persona_desc'', PStr (sub_scan ''{{user}}'' (\<lambda>m. w)
                     (sub_scan ''{{char}}'' (\<lambda>m. a) (spec_persona_join c)))),
               (''greeting'', PStr g), (''scenario'', PStr s), (''mes_example'', PStr m),
               (''raw_card'', PDict c)])"
    if "unwrapped kvs = PDict c" "dict_get c ''name'' (PStr ''BOT'') = PStr a"
      "backslash \<notin> set a" "user_name = PStr w" "backslash \<notin> set w" "text_fields_plain c"
    for c a w
    using a that(1,4) spec_internal_record_plain [OF that(2,3,5,6)] by simp
  have d: "map_tavern_to_internal
        (PDict [(''name'', PStr ''Ada''), (''personality'', PStr ''kind''), (''description'', PStr ''smart'')])
        (PStr ''YOU'')
      = Inr (PDict [(''ai_name'', PStr ''Ada''), (''persona_desc'', PStr ''kind smart''),
          (''greeting'', PStr []), (''scenario'', PStr []), (''mes_example'', PStr []),
          (''raw_card'', PDict [(''name'', PStr ''Ada''), (''personality'', PStr ''kind''),
             (''description'', PStr ''smart'')])])"
    by code_simp
  have e: "map_tavern_to_internal (PDict []) (PStr ''YOU'')
      = Inr (PDict [(''ai_name'', PStr ''BOT''), (''persona_desc'', PStr ''An AI companion''),
          (''greeting'', PStr []), (''scenario'', PStr []), (''mes_example'', PStr []),
          (''raw_card'', PDict [])])"
    by code_simp
  from a b c d e show ?thesis by blast
qed

text \<open>
  The theorem at the two cards of the claim: its hypotheses hold there and give the persona
  description and the name of both.
\<close>

theorem map_tavern_to_internal_persona_desc_witness:
  "unwrapped [(''name'', PStr ''Ada''), (''personality'', PStr ''kind''), (''description'', PStr ''smart'')]
     = PDict [(''name'', PStr ''Ada''), (''personality'', PStr ''kind''), (''description'', PStr ''smart'')]
   \<and> dict_get [(''name'', PStr ''Ada''), (''personality'', PStr ''kind''), (''description'', PStr ''smart'')]
        ''name'' (PStr ''BOT'') = PStr ''Ada''
   \<and> backslash \<notin> set ''Ada'' \<and> backslash \<notin> set ''YOU''
   \<and> text_fields_plain [(''name'', PStr ''Ada''), (''personality'', PStr ''kind''), (''description'', PStr ''smart'')]
   \<and> \<not> occurs ''{{char}}'' ''kind smart'' \<and> \<not> occurs ''{{user}}'' ''kind smart''
   \<and> record_field (map_tavern_to_internal
        (PDict [(''name'', PStr ''Ada''), (''personality'', PStr ''kind''), (''description'', PStr ''smart'')])
        (PStr ''YOU'')) ''persona_desc'' = Some (PStr ''kind smart'')
   \<and> record_field (map_tavern_to_internal
        (PDict [(''name'', PStr ''Ada''), (''personality'', PStr ''kind''), (''description'', PStr ''smart'')])
        (PStr ''YOU'')) ''ai_name'' = Some (PStr ''Ada'')
   \<and> unwrapped [] = PDict [] \<and> dict_get [] ''name'' (PStr ''BOT'') = PStr ''BOT''
   \<and> backslash \<notin> set ''BOT'' \<and> text_fields_plain []
   \<and> record_field (map_tavern_to_internal (PDict []) (PStr ''YOU'')) ''persona_desc''
       = Some (PStr ''An AI companion'')
   \<and> record_field (map_tavern_to_internal (PDict []) (PStr ''YOU'')) ''ai_name'' = Some (PStr ''BOT'')"
proof -
  let ?ada = "[(''name'', PStr ''Ada''), (''personality'', PStr ''kind''), (''description'', PStr ''smart'')]"
  have u1: "unwrapped ?ada = PDict ?ada" by code_simp
  have n1: "dict_get ?ada ''name'' (PStr ''BOT'') = PStr ''Ada''" by code_simp
  have b1: "backslash \<notin> set ''Ada''" by simp
  have b2: "backslash \<notin> set ''YOU''" by simp
  have t1: "text_fields_plain ?ada" by code_simp
  have j1: "spec_persona_join ?ada = ''kind smart''" by code_simp
  have o1: "\<not> occurs ''{{char}}'' ''kind smart''" by code_simp
  have o2: "\<not> occurs ''{{user}}'' ''kind smart''" by code_simp
  have s1: "sub_scan ''{{user}}'' (\<lambda>m. ''YOU'') (sub_scan ''{{char}}'' (\<lambda>m. ''Ada'') ''kind smart'')
      = ''kind smart''"
    by (simp only: sub_scan_no_occurrence [OF o1] sub_scan_no_occurrence [OF o2])
  note A = map_tavern_to_internal_persona_desc [of ?ada "PStr ''YOU''", THEN conjunct2,
      THEN conjunct2, THEN conjunct1, rule_format, of ?ada "''Ada''" "''YOU''"]
  have "\<exists>g s m. map_tavern_to_internal (PDict ?ada) (PStr ''YOU'') =
     Inr (PDict [(''ai_name'', PStr ''Ada''),
        (''persona_desc'', PStr (sub_scan ''{{user}}'' (\<lambda>m. ''YOU'')
              (sub_scan ''{{char}}'' (\<lambda>m. ''Ada'') (spec_persona_join ?ada)))),
        (''greeting'', PStr g), (''scenario'', PStr s), (''mes_example'', PStr m),
        (''raw_card'', PDict ?ada)])"
    by (rule A) (intro conjI u1 n1 b1 b2 t1 refl)
  then obtain g s m where "map_tavern_to_internal (PDict ?ada) (PStr ''YOU'') =
     Inr (PDict [(''ai_name'', PStr ''Ada''), (''persona_desc'', PStr ''kind smart''),
        (''greeting'', PStr g), (''scenario'', PStr s), (''mes_example'', PStr m),
        (''raw_card'', PDict ?ada)])"
    unfolding j1 s1 by (elim exE)
  then have r1: "record_field (map_tavern_to_internal (PDict ?ada) (PStr ''YOU'')) ''persona_desc''
       = Some (PStr ''kind smart'')"
    and r2: "record_field (map_tavern_to_internal (PDict ?ada) (PStr ''YOU'')) ''ai_name''
       = Some (PStr ''Ada'')"
    by (simp_all add: record_field_def)
  have u2: "unwrapped [] = PDict []" by code_simp
  have n2: "dict_get [] ''name'' (PStr ''BOT'') = PStr ''BOT''" by code_simp
  have b3: "backslash \<notin> set ''BOT''" by simp
  have t2: "text_fields_plain []" by code_simp
  have j2: "spec_persona_join [] = ''An AI companion''" by code_simp
  have s2: "sub_scan ''{{user}}'' (\<lambda>m. ''YOU'') (sub_scan ''{{char}}'' (\<lambda>m. ''BOT'') ''An AI companion'')
      = ''An AI companion''"
    by code_simp
  note B = map_tavern_to_internal_persona_desc [of "[]" "PStr ''YOU''", THEN conjunct2,
      THEN conjunct2, THEN conjunct1, rule_format, of "[]" "''BOT''" "''YOU''"]
  have "\<exists>g s m. map_tavern_to_internal (PDict []) (PStr ''YOU'') =
     Inr (PDict [(''ai_name'', PStr ''BOT''),
        (''persona_desc'', PStr (sub_scan ''{{user}}'' (\<lambda>m. ''YOU'')
              (sub_scan ''{{char}}'' (\<lambda>m. ''BOT'') (spec_persona_join [])))),
        (''greeting'', PStr g), (''scenario'', PStr s), (''mes_example'', PStr m),
        (''raw_card'', PDict [])])"
    by (rule B) (intro conjI u2 n2 b3 b2 t2 refl)
  then obtain g' s' m' where "map_tavern_to_internal (PDict []) (PStr ''YOU'') =
     Inr (PDict [(''ai_name'', PStr ''BOT''), (''persona_desc'', PStr ''An AI companion''),
        (''greeting'', PStr g'), (''scenario'', PStr s'), (''mes_example'', PStr m'),
        (''raw_card'', PDict [])])"
    unfolding j2 s2 by (elim exE)
  then have r3: "record_field (map_tavern_to_internal (PDict []) (PStr ''YOU'')) ''persona_desc''
       = Some (PStr ''An AI companion'')"
    and r4: "record_field (map_tavern_to_internal (PDict []) (PStr ''YOU'')) ''ai_name''
       = Some (PStr ''BOT'')"
    by (simp_all add: record_field_def)
  show ?thesis
    by (intro conjI u1 n1 b1 b2 t1 o1 o2 r1 r2 u2 n2 b3 t2 r3 r4)
qed

text \<open>
  Claim C6, as stated: on a card with the key \<open>data\<close> the function behaves as if called on
  \<^verbatim>\<open>card['data']\<close>. A call on \<^verbatim>\<open>card['data']\<close> would unwrap once more when that card has a key
  \<open>data\<close> of its own; the source unwraps one level only.
\<close>

theorem unwrap_is_not_a_recursive_call_counterexample:
  "record_field (map_tavern_to_internal
      (PDict [(''data'', PDict [(''data'', PDict [(''name'', PStr ''Y'')]), (''name'', PStr ''X'')])])
      (PStr ''YOU'')) ''ai_name'' = Some (PStr ''X'')
   \<and> map_of [(''data'', PDict [(''data'', PDict [(''name'', PStr ''Y'')]), (''name'', PStr ''X'')])] ''data''
       = Some (PDict [(''data'', PDict [(''name'', PStr ''Y'')]), (''name'', PStr ''X'')])
   \<and> record_field (map_tavern_to_internal
      (PDict [(''data'', PDict [(''name'', PStr ''Y'')]), (''name'', PStr ''X'')])
      (PStr ''YOU'')) ''ai_name'' = Some (PStr ''Y'')"
  by code_simp

text \<open>
  Claim C6, amended. On a card with the key \<open>data\<close> the fields are computed from
  \<^verbatim>\<open>card['data']\<close> (lines 117--154, outer keys discarded, no second unwrapping); this is the
  call on \<^verbatim>\<open>card['data']\<close> when \<^verbatim>\<open>card['data']\<close> has no key \<open>data\<close> itself; and the
  \<open>raw_card\<close> of the returned record is \<^verbatim>\<open>card['data']\<close>.
\<close>

theorem map_tavern_to_internal_unwraps_once:
  assumes "map_of outer ''data'' = Some inner"
  shows "map_tavern_to_internal (PDict outer) user_name = map_card_fields inner user_name
    \<and> (py_in ''data'' inner = Inr False \<longrightarrow>
          map_tavern_to_internal (PDict outer) user_name = map_tavern_to_internal inner user_name)
    \<and> (\<forall>r. map_tavern_to_internal (PDict outer) user_name = Inr r \<longrightarrow>
          record_field (Inr r) ''raw_card'' = Some inner)"
proof -
  have a: "map_tavern_to_internal (PDict outer) user_name = map_card_fields inner user_name"
    using assms by (simp add: map_tavern_to_internal_def unwrap_data_dict)
  have b: "map_tavern_to_internal inner user_name = map_card_fields inner user_name"
    if "py_in ''data'' inner = Inr False"
    using that by (simp add: map_tavern_to_internal_def unwrap_data_def)
  have c: "record_field (Inr r) ''raw_card'' = Some inner"
    if "map_card_fields inner user_name = Inr r" for r
  proof (cases inner)
    case (PDict kvs)
    with that map_card_fields_dict_Inr [of kvs user_name r] show ?thesis
      by (auto simp: record_field_def)
  qed (use that in \<open>simp_all add: map_card_fields_def py_get_def\<close>)
  from a b c show ?thesis by simp
qed

theorem map_tavern_to_internal_unwraps_once_witness:
  "map_of [(''data'', PDict [(''name'', PStr ''X'')])] ''data'' = Some (PDict [(''name'', PStr ''X'')])
   \<and> py_in ''data'' (PDict [(''name'', PStr ''X'')]) = Inr False
   \<and> map_tavern_to_internal (PDict [(''data'', PDict [(''name'', PStr ''X'')])]) (PStr ''YOU'')
       = map_tavern_to_internal (PDict [(''name'', PStr ''X'')]) (PStr ''YOU'')
   \<and> record_field (map_tavern_to_internal (PDict [(''data'', PDict [(''name'', PStr ''X'')])]) (PStr ''YOU''))
        ''ai_name'' = Some (PStr ''X'')
   \<and> record_field (map_tavern_to_internal (PDict [(''data'', PDict [(''name'', PStr ''X'')])]) (PStr ''YOU''))
        ''raw_card'' = Some (PDict [(''name'', PStr ''X'')])"
proof -
  let ?inner = "PDict [(''name'', PStr ''X'')]"
  let ?card = "[(''data'', ?inner)]"
  have h: "map_of ?card ''data'' = Some ?inner" by simp
  have n: "py_in ''data'' ?inner = Inr False" by code_simp
  have e: "map_tavern_to_internal ?inner (PStr ''YOU'') =
     Inr (PDict [(''ai_name'', PStr ''X''), (''persona_desc'', PStr ''An AI companion''),
        (''greeting'', PStr []), (''scenario'', PStr []), (''mes_example'', PStr []),
        (''raw_card'', ?inner)])"
    by code_simp
  from map_tavern_to_internal_unwraps_once [OF h, of "PStr ''YOU''"] n
  have eq: "map_tavern_to_internal (PDict ?card) (PStr ''YOU'') = map_tavern_to_internal ?inner (PStr ''YOU'')"
    by blast
  from h n eq e show ?thesis by (simp add: record_field_def)
qed

text \<open>
  Claim C7. For every internal record \<^verbatim>\<open>map_internal_to_tavern\<close> returns a card whose
  \<open>description\<close> and \<open>personality\<close> are both the record's \<open>persona_desc\<close>, whose \<open>first_mes\<close>,
  \<open>scenario\<close> and \<open>mes_example\<close> are the record's \<open>greeting\<close>, \<open>scenario\<close> and \<open>mes_example\<close>
  (the empty string when missing), each as it is, without any substitution, and whose
  metadata fields are the eight constants.
\<close>

theorem map_internal_to_tavern_fields:
  "\<exists>t. map_internal_to_tavern (PDict r) = Inr (PDict t)
     \<and> map_of t ''name'' = Some (dict_get r ''ai_name'' (PStr ''BOT''))
     \<and> map_of t ''description'' = Some (dict_get r ''persona_desc'' (PStr []))
     \<and> map_of t ''personality'' = Some (dict_get r ''persona_desc'' (PStr []))
     \<and> map_of t ''first_mes'' = Some (dict_get r ''greeting'' (PStr []))
     \<and> map_of t ''scenario'' = Some (dict_get r ''scenario'' (PStr []))
     \<and> map_of t ''mes_example'' = Some (dict_get r ''mes_example'' (PStr []))
     \<and> map_of t ''creator_notes'' = Some (PStr ''Exported from BrainDancev2'')
     \<and> map_of t ''system_prompt'' = Some (PStr [])
     \<and> map_of t ''post_history_instructions'' = Some (PStr [])
     \<and> map_of t ''tags'' = Some (PList [])
     \<and> map_of t ''creator'' = Some (PStr ''BrainDancev2'')
     \<and> map_of t ''character_version'' = Some (PStr ''1.0'')
     \<and> map_of t ''spec'' = Some (PStr ''chara_card_v2'')
     \<and> map_of t ''spec_version'' = Some (PStr ''2.0'')
     \<and> map fst t = [''name'', ''description'', ''personality'', ''first_mes'', ''scenario'',
           ''mes_example'', ''creator_notes'', ''system_prompt'', ''post_history_instructions'',
           ''tags'', ''creator'', ''character_version'', ''spec'', ''spec_version'']"
  unfolding map_internal_to_tavern_dict by simp



section \<open>Properties of the import\<close>

text \<open>
  Claim C2. \<^verbatim>\<open>import_character_card\<close> never raises: whatever the libraries do, it returns a
  result with the four fields. When a step fails (the image does not open, the text under
  \<open>chara\<close> is no base64, the bytes are no JSON, the mapping of the card raises) the result has
  \<open>success = False\<close> and the error text \<^verbatim>\<open>'Error importing character card: '\<close> followed by the
  text of the exception; when every step returns, the result has \<open>success = True\<close>, no error,
  the image and the mapped record. A result with \<open>success = False\<close> always has an error text.
\<close>

theorem import_character_card_never_raises:
  "(\<forall>e. open_image pil d = Inl e \<longrightarrow>
       import_character_card lib pil d u =
         \<lparr>success = False, error = Some (''Error importing character card: '' @ exn_str lib e),
          image = None, character_data = None\<rparr>)
   \<and> (\<forall>img v e. open_image pil d = Inr img \<and> img_info pil img ''chara'' = Some v
          \<and> b64decode lib v = Inl e \<longrightarrow>
       import_character_card lib pil d u =
         \<lparr>success = False, error = Some (''Error importing character card: '' @ exn_str lib e),
          image = None, character_data = None\<rparr>)
   \<and> (\<forall>img v bs e. open_image pil d = Inr img \<and> img_info pil img ''chara'' = Some v
          \<and> b64decode lib v = Inr bs \<and> json_loads lib bs = Inl e \<longrightarrow>
       import_character_card lib pil d u =
         \<lparr>success = False, error = Some (''Error importing character card: '' @ exn_str lib e),
          image = None, character_data = None\<rparr>)
   \<and> (\<forall>img v bs tcard e. open_image pil d = Inr img \<and> img_info pil img ''chara'' = Some v
          \<and> b64decode lib v = Inr bs \<and> json_loads lib bs = Inr tcard
          \<and> map_tavern_to_internal tcard u = Inl e \<longrightarrow>
       import_character_card lib pil d u =
         \<lparr>success = False, error = Some (''Error importing character card: '' @ exn_str lib e),
          image = None, character_data = None\<rparr>)
   \<and> (\<forall>img v bs tcard m. open_image pil d = Inr img \<and> img_info pil img ''chara'' = Some v
          \<and> b64decode lib v = Inr bs \<and> json_loads lib bs = Inr tcard
          \<and> map_tavern_to_internal tcard u = Inr m \<longrightarrow>
       import_character_card lib pil d u =
         \<lparr>success = True, error = None, image = Some img, character_data = Some m\<rparr>)
   \<and> (if success (import_character_card lib pil d u)
       then error (import_character_card lib pil d u) = None
          \<and> image (import_character_card lib pil d u) \<noteq> None
          \<and> character_data (import_character_card lib pil d u) \<noteq> None
       else error (import_character_card lib pil d u) \<noteq> None
          \<and> character_data (import_character_card lib pil d u) = None)"
  unfolding import_character_card_cases
  by (auto split: sum.splits option.splits)

text \<open>
  The theorem at the stand-in libraries, once for every step that fails and once for a card
  that is imported.
\<close>

theorem import_character_card_never_raises_witness:
  "open_image example_pil (Bytes ''JUNK'') = Inl (Exception ''cannot identify image file'')
   \<and> import_character_card example_stdlib example_pil (Bytes ''JUNK'') (PStr ''YOU'') =
       \<lparr>success = False, error = Some ''Error importing character card: failed'',
        image = None, character_data = None\<rparr>
   \<and> open_image example_pil (Bytes ''PNG!'') = Inr [(''chara'', PStr ''!'')]
   \<and> img_info example_pil [(''chara'', PStr ''!'')] ''chara'' = Some (PStr ''!'')
   \<and> b64decode example_stdlib (PStr ''!'') = Inl ValueError
   \<and> import_character_card example_stdlib example_pil (Bytes ''PNG!'') (PStr ''YOU'') =
       \<lparr>success = False, error = Some ''Error importing character card: failed'',
        image = None, character_data = None\<rparr>
   \<and> open_image example_pil (Bytes ''PNGx'') = Inr [(''chara'', PStr ''x'')]
   \<and> img_info example_pil [(''chara'', PStr ''x'')] ''chara'' = Some (PStr ''x'')
   \<and> b64decode example_stdlib (PStr ''x'') = Inr ''x''
   \<and> json_loads example_stdlib ''x'' = Inl ValueError
   \<and> import_character_card example_stdlib example_pil (Bytes ''PNGx'') (PStr ''YOU'') =
       \<lparr>success = False, error = Some ''Error importing character card: failed'',
        image = None, character_data = None\<rparr>
   \<and> open_image example_pil (Bytes ''PNG5'') = Inr [(''chara'', PStr ''5'')]
   \<and> img_info example_pil [(''chara'', PStr ''5'')] ''chara'' = Some (PStr ''5'')
   \<and> b64decode example_stdlib (PStr ''5'') = Inr ''5''
   \<and> json_loads example_stdlib ''5'' = Inr (PInt 5)
   \<and> map_tavern_to_internal (PInt 5) (PStr ''YOU'') = Inl TypeError
   \<and> import_character_card example_stdlib example_pil (Bytes ''PNG5'') (PStr ''YOU'') =
       \<lparr>success = False, error = Some ''Error importing character card: failed'',
        image = None, character_data = None\<rparr>
   \<and> open_image example_pil (Bytes ''PNG{}'') = Inr [(''chara'', PStr ''{}'')]
   \<and> img_info example_pil [(''chara'', PStr ''{}'')] ''chara'' = Some (PStr ''{}'')
   \<and> b64decode example_stdlib (PStr ''{}'') = Inr ''{}''
   \<and> json_loads example_stdlib ''{}'' = Inr (PDict [])
   \<and> import_character_card example_stdlib example_pil (Bytes ''PNG{}'') (PStr ''YOU'') =
       \<lparr>success = True, error = None, image = Some [(''chara'', PStr ''{}'')],
        character_data = Some (PDict [(''ai_name'', PStr ''BOT''),
          (''persona_desc'', PStr ''An AI companion''), (''greeting'', PStr []),
          (''scenario'', PStr []), (''mes_example'', PStr []), (''raw_card'', PDict [])])\<rparr>"
proof -
  have x: "exn_str example_stdlib e = ''failed''" for e
    by (simp add: example_stdlib_def)
  have o1: "open_image example_pil (Bytes ''JUNK'') = Inl (Exception ''cannot identify image file'')"
    by (simp add: open_image_def example_pil_def)
  note T = import_character_card_never_raises
  from T [of example_pil "Bytes ''JUNK''" example_stdlib "PStr ''YOU''", THEN conjunct1,
      rule_format, OF o1]
  have r1: "import_character_card example_stdlib example_pil (Bytes ''JUNK'') (PStr ''YOU'') =
       \<lparr>success = False, error = Some ''Error importing character card: failed'',
        image = None, character_data = None\<rparr>"
    by (simp add: x)
  have o2: "open_image example_pil (Bytes ''PNG!'') = Inr [(''chara'', PStr ''!'')]"
    by (simp add: open_image_def example_pil_def)
  have i2: "img_info example_pil [(''chara'', PStr ''!'')] ''chara'' = Some (PStr ''!'')"
    by (simp add: example_pil_def)
  have d2: "b64decode example_stdlib (PStr ''!'') = Inl ValueError"
    by (simp add: example_stdlib_def)
  from T [of example_pil "Bytes ''PNG!''" example_stdlib "PStr ''YOU''", THEN conjunct2,
      THEN conjunct1, rule_format, OF conjI [OF o2 conjI [OF i2 d2]]]
  have r2: "import_character_card example_stdlib example_pil (Bytes ''PNG!'') (PStr ''YOU'') =
       \<lparr>success = False, error = Some ''Error importing character card: failed'',
        image = None, character_data = None\<rparr>"
    by (simp add: x)
  have o3: "open_image example_pil (Bytes ''PNGx'') = Inr [(''chara'', PStr ''x'')]"
    by (simp add: open_image_def example_pil_def)
  have i3: "img_info example_pil [(''chara'', PStr ''x'')] ''chara'' = Some (PStr ''x'')"
    by (simp add: example_pil_def)
  have d3: "b64decode example_stdlib (PStr ''x'') = Inr ''x''"
    by (simp add: example_stdlib_def)
  have l3: "json_loads example_stdlib ''x'' = Inl ValueError"
    by (simp add: example_stdlib_def)
  from T [of example_pil "Bytes ''PNGx''" example_stdlib "PStr ''YOU''", THEN conjunct2,
      THEN conjunct2, THEN conjunct1, rule_format, OF conjI [OF o3 conjI [OF i3 conjI [OF d3 l3]]]]
  have r3: "import_character_card example_stdlib example_pil (Bytes ''PNGx'') (PStr ''YOU'') =
       \<lparr>success = False, error = Some ''Error importing character card: failed'',
        image = None, character_data = None\<rparr>"
    by (simp add: x)
  have o4: "open_image example_pil (Bytes ''PNG5'') = Inr [(''chara'', PStr ''5'')]"
    by (simp add: open_image_def example_pil_def)
  have i4: "img_info example_pil [(''chara'', PStr ''5'')] ''chara'' = Some (PStr ''5'')"
    by (simp add: example_pil_def)
  have d4: "b64decode example_stdlib (PStr ''5'') = Inr ''5''"
    by (simp add: example_stdlib_def)
  have l4: "json_loads example_stdlib ''5'' = Inr (PInt 5)"
    by (simp add: example_stdlib_def)
  have m4: "map_tavern_to_internal (PInt 5) (PStr ''YOU'') = Inl TypeError"
    by code_simp
  from T [of example_pil "Bytes ''PNG5''" example_stdlib "PStr ''YOU''", THEN conjunct2,
      THEN conjunct2, THEN conjunct2, THEN conjunct1, rule_format,
      OF conjI [OF o4 conjI [OF i4 conjI [OF d4 conjI [OF l4 m4]]]]]
  have r4: "import_character_card example_stdlib example_pil (Bytes ''PNG5'') (PStr ''YOU'') =
       \<lparr>success = False, error = Some ''Error importing character card: failed'',
        image = None, character_data = None\<rparr>"
    by (simp add: x)
  have o5: "open_image example_pil (Bytes ''PNG{}'') = Inr [(''chara'', PStr ''{}'')]"
    by (simp add: open_image_def example_pil_def)
  have i5: "img_info example_pil [(''chara'', PStr ''{}'')] ''chara'' = Some (PStr ''{}'')"
    by (simp add: example_pil_def)
  have d5: "b64decode example_stdlib (PStr ''{}'') = Inr ''{}''"
    by (simp add: example_stdlib_def)
  have l5: "json_loads example_stdlib ''{}'' = Inr (PDict [])"
    by (simp add: example_stdlib_def)
  have m5: "map_tavern_to_internal (PDict []) (PStr ''YOU'') =
      Inr (PDict [(''ai_name'', PStr ''BOT''),
          (''persona_desc'', PStr ''An AI companion''), (''greeting'', PStr []),
          (''scenario'', PStr []), (''mes_example'', PStr []), (''raw_card'', PDict [])])"
    by code_simp
  note r5 = T [of example_pil "Bytes ''PNG{}''" example_stdlib "PStr ''YOU''", THEN conjunct2,
      THEN conjunct2, THEN conjunct2, THEN conjunct2, THEN conjunct1, rule_format,
      OF conjI [OF o5 conjI [OF i5 conjI [OF d5 conjI [OF l5 m5]]]]]
  show ?thesis
    by (intro conjI o1 r1 o2 i2 d2 r2 o3 i3 d3 l3 r3 o4 i4 d4 l4 m4 r4 o5 i5 d5 l5 r5)
qed



end
